theory Spec2Isabelle
  imports Complex_Main "HOL-Library.Sublist" "HOL-Library.Char_ord" "HOL-Library.List_Lexorder"
begin

section \<open>Python values shared by the modules\<close>

text \<open>
  An exception is a value: the constructor is the Python class that is raised.
  \<open>LibraryError\<close> stands for whatever an external library call raises on its own
  (the sentence-transformer model, for instance).
\<close>

datatype py_error =
    ValueError string
  | KeyError string
  | TypeError string
  | IndexError string
  | LibraryError string

fun error_class :: "py_error \<Rightarrow> string" where
  "error_class (ValueError _) = ''ValueError''"
| "error_class (KeyError _) = ''KeyError''"
| "error_class (TypeError _) = ''TypeError''"
| "error_class (IndexError _) = ''IndexError''"
| "error_class (LibraryError _) = ''Exception''"

text \<open>\<open>str(n)\<close> for a non-negative integer: its decimal digits.\<close>

fun str_nat :: "nat \<Rightarrow> string" where
  "str_nat n =
     (if n < 10 then [char_of (48 + n)]
      else str_nat (n div 10) @ [char_of (48 + n mod 10)])"

declare str_nat.simps [simp del]

text \<open>
  The slice \<open>xs[:k]\<close>: the first \<open>k\<close> elements, and for a negative \<open>k\<close> all but
  the last \<open>-k\<close>.
\<close>

definition py_prefix :: "'a list \<Rightarrow> int \<Rightarrow> 'a list" where
  "py_prefix xs k =
     (if 0 \<le> k then take (nat k) xs else take (length xs - nat (- k)) xs)"

section \<open>Embeddings (calculator/ml/embeddings.py, app/services/embeddings.py)\<close>

text \<open>
  A text is a Python \<open>str\<close>: a list of Unicode code points.  An embedding is a list of
  floats.  The sentence-transformer model is external: its \<open>encode\<close> on one text and
  on a list of texts are parameters, and either may raise.
\<close>

type_synonym unicode = "nat list"
type_synonym embedding = "real list"

record sentence_transformer =
  encode :: "unicode \<Rightarrow> py_error + embedding"
  encode_batch :: "unicode list \<Rightarrow> py_error + embedding list"

text \<open>The code points that \<open>str.strip()\<close> removes (\<open>str.isspace\<close>).\<close>

definition py_isspace :: "nat \<Rightarrow> bool" where
  "py_isspace c \<longleftrightarrow>
     (9 \<le> c \<and> c \<le> 13) \<or> (28 \<le> c \<and> c \<le> 32) \<or> c = 133 \<or> c = 160 \<or> c = 5760 \<or>
     (8192 \<le> c \<and> c \<le> 8202) \<or> c = 8232 \<or> c = 8233 \<or> c = 8239 \<or> c = 8287 \<or> c = 12288"

definition py_strip :: "unicode \<Rightarrow> unicode" where
  "py_strip t = rev (dropWhile py_isspace (rev (dropWhile py_isspace t)))"

subsection \<open>\<open>EmbeddingGenerator\<close>\<close>

definition generate_embedding :: "sentence_transformer \<Rightarrow> unicode \<Rightarrow> py_error + embedding" where
  "generate_embedding model t =
     (if t = [] \<or> py_strip t = [] then Inr (replicate 384 0.0)
      else encode model t)"

definition generate_embeddings_batch ::
    "sentence_transformer \<Rightarrow> unicode list \<Rightarrow> py_error + embedding list" where
  "generate_embeddings_batch model texts = encode_batch model texts"

subsection \<open>\<open>embed_text\<close> and \<open>embed_texts_batch\<close> of the service\<close>

text \<open>Here an exception of the model is caught and replaced by zero vectors.\<close>

definition embed_text :: "sentence_transformer \<Rightarrow> unicode \<Rightarrow> embedding" where
  "embed_text model t =
     (if t = [] \<or> py_strip t = [] then replicate 384 0.0
      else (case encode model t of Inr e \<Rightarrow> e | Inl _ \<Rightarrow> replicate 384 0.0))"

definition embed_texts_batch :: "sentence_transformer \<Rightarrow> unicode list \<Rightarrow> embedding list" where
  "embed_texts_batch model texts =
     (case encode_batch model texts of
        Inr es \<Rightarrow> es
      | Inl _ \<Rightarrow> map (\<lambda>_. replicate 384 0.0) texts)"

subsection \<open>Cosine similarity\<close>

text \<open>
  \<open>sklearn.metrics.pairwise.cosine_similarity\<close> on two rows: each row is divided by
  its Euclidean norm, a zero norm being replaced by 1, and the results are multiplied.
  Rows of different length, or without any feature, are rejected with \<open>ValueError\<close>.
\<close>

definition dot :: "real list \<Rightarrow> real list \<Rightarrow> real" where
  "dot a b = sum_list (map (\<lambda>(x, y). x * y) (zip a b))"

definition row_norm :: "real list \<Rightarrow> real" where
  "row_norm a = sqrt (sum_list (map (\<lambda>x. x * x) a))"

definition normalize :: "real list \<Rightarrow> real list" where
  "normalize a = (let n = row_norm a; n' = (if n = 0 then 1 else n) in map (\<lambda>x. x / n') a)"

definition calculate_similarity :: "embedding \<Rightarrow> embedding \<Rightarrow> py_error + real" where
  "calculate_similarity embedding1 embedding2 =
     (if embedding1 = [] \<or> embedding2 = [] then Inl (ValueError ''Found array with 0 feature(s)'')
      else if length embedding1 \<noteq> length embedding2
      then Inl (ValueError ''Incompatible dimension for X and Y matrices'')
      else Inr (dot (normalize embedding1) (normalize embedding2)))"

subsection \<open>\<open>EmbeddingGenerator.find_similar_projects\<close>\<close>

text \<open>
  The fields of \<open>calculator.models.Project\<close> that the retrieval reads.  \<open>project_date\<close>
  is a calendar date, counted in days.
\<close>

record project =
  project_id :: string
  name :: string
  project_type :: string
  final_price :: real
  project_date :: int
  description_embedding :: "embedding option"
  is_finalized :: bool

record 'a scored =
  item :: 'a
  similarity :: real

record project_summary =
  summary_id :: string
  summary_name :: string
  summary_type :: string
  summary_price :: real

text \<open>
  \<open>list.sort(key=..., reverse=True)\<close> is stable: entries with equal keys keep their
  order.
\<close>

definition sort_by_similarity :: "'a scored list \<Rightarrow> 'a scored list" where
  "sort_by_similarity results = sort_key (\<lambda>x. - similarity x) results"

text \<open>
  The loop body: a project without embedding (\<open>None\<close> or the empty list) is skipped,
  and so is one whose similarity computation raises; an entry is kept only when the
  similarity is greater than 0.3.
\<close>

fun collect_similar :: "embedding \<Rightarrow> project list \<Rightarrow> project_summary scored list" where
  "collect_similar query_embedding [] = []"
| "collect_similar query_embedding (p # projects) =
     (case description_embedding p of
        None \<Rightarrow> collect_similar query_embedding projects
      | Some emb \<Rightarrow>
          if emb = [] then collect_similar query_embedding projects
          else (case calculate_similarity query_embedding emb of
                  Inl _ \<Rightarrow> collect_similar query_embedding projects
                | Inr sim \<Rightarrow>
                    if sim > 0.3
                    then \<lparr>item = \<lparr>summary_id = project_id p, summary_name = name p,
                                  summary_type = project_type p,
                                  summary_price = (if final_price p \<noteq> 0 then final_price p else 0)\<rparr>,
                          similarity = sim\<rparr> # collect_similar query_embedding projects
                    else collect_similar query_embedding projects))"

definition EmbeddingGenerator_find_similar_projects ::
    "embedding \<Rightarrow> project list \<Rightarrow> int \<Rightarrow> project_summary scored list" where
  "EmbeddingGenerator_find_similar_projects query_embedding projects top_k =
     py_prefix (sort_by_similarity (collect_similar query_embedding projects)) top_k"

section \<open>Confidence scoring (calculator/ml/confidence.py)\<close>

text \<open>
  Python floats are modelled as real numbers: \<open>np.log\<close> is \<^const>\<open>ln\<close>,
  \<open>np.exp\<close> is \<^const>\<open>exp\<close>, and the non-finite values \<open>nan\<close> and \<open>inf\<close> have
  no counterpart.  Strings are byte strings; a character outside ASCII is written as
  its UTF-8 bytes.
\<close>

subsection \<open>Python's \<open>round(x, ndigits)\<close>\<close>

text \<open>
  \<open>round\<close> rounds to the nearest multiple of \<open>10 ^ -ndigits\<close>; a value exactly half way
  between two multiples goes to the even one.
\<close>

definition round_half_even :: "real \<Rightarrow> int" where
  "round_half_even x =
     (let f = \<lfloor>x\<rfloor>; d = x - of_int f
      in if d < 1 / 2 then f
         else if 1 / 2 < d then f + 1
         else if even f then f else f + 1)"

definition py_round :: "real \<Rightarrow> nat \<Rightarrow> real" where
  "py_round x ndigits = of_int (round_half_even (x * 10 ^ ndigits)) / 10 ^ ndigits"

subsection \<open>\<open>ConfidenceCalculator.calculate_confidence\<close>\<close>

text \<open>
  The four components, in the order of the source.  \<open>similar_projects_count\<close> is a
  Python \<open>int\<close>; for a count below 0 NumPy's logarithm gives \<open>-inf\<close> or \<open>nan\<close>, which
  the model does not represent, so the properties below are stated for counts from 0 on.
\<close>

definition similarity_score :: "int \<Rightarrow> real" where
  "similarity_score similar_projects_count =
     min (ln (1 + of_int similar_projects_count) / ln 100) 1.0"

definition variance_score :: "real \<Rightarrow> real \<Rightarrow> real" where
  "variance_score price_variance predicted_price =
     (if predicted_price > 0 \<and> price_variance \<ge> 0
      then 1 / (1 + price_variance / predicted_price)
      else 0.5)"

definition quality_score :: "real \<Rightarrow> real" where
  "quality_score data_quality_score = max 0.0 (min 1.0 data_quality_score)"

definition temporal_score :: "real \<Rightarrow> real" where
  "temporal_score avg_months_old = exp (- 0.1 * avg_months_old)"

definition calculate_confidence :: "int \<Rightarrow> real \<Rightarrow> real \<Rightarrow> real \<Rightarrow> real \<Rightarrow> real" where
  "calculate_confidence similar_projects_count price_variance predicted_price
       data_quality_score avg_months_old =
     (let confidence =
            0.35 * similarity_score similar_projects_count +
            0.30 * variance_score price_variance predicted_price +
            0.20 * quality_score data_quality_score +
            0.15 * temporal_score avg_months_old
      in py_round confidence 3)"

subsection \<open>\<open>ConfidenceCalculator.classify_confidence_level\<close>\<close>

record confidence_level =
  level :: string
  color :: string
  recommendation :: string

definition level_sehr_hoch :: confidence_level where
  "level_sehr_hoch =
     \<lparr>level = ''Sehr hoch'', color = ''green'',
      recommendation = ''Vorhersage kann direkt verwendet werden.''\<rparr>"

definition level_hoch :: confidence_level where
  "level_hoch =
     \<lparr>level = ''Hoch'', color = ''lightgreen'',
      recommendation =
        ''Vorhersage ist verl'' @ [CHR 0xC3, CHR 0xA4] @ ''sslich, manuelle ''
        @ [CHR 0xC3, CHR 0x9C] @ ''berpr'' @ [CHR 0xC3, CHR 0xBC] @ ''fung empfohlen.''\<rparr>"

definition level_mittel :: confidence_level where
  "level_mittel =
     \<lparr>level = ''Mittel'', color = ''yellow'',
      recommendation =
        ''Vorhersage mit Vorsicht verwenden, sorgf'' @ [CHR 0xC3, CHR 0xA4]
        @ ''ltige Pr'' @ [CHR 0xC3, CHR 0xBC] @ ''fung notwendig.''\<rparr>"

definition level_niedrig :: confidence_level where
  "level_niedrig =
     \<lparr>level = ''Niedrig'', color = ''orange'',
      recommendation = ''Vorhersage unsicher, manuelle Kalkulation empfohlen.''\<rparr>"

definition level_sehr_niedrig :: confidence_level where
  "level_sehr_niedrig =
     \<lparr>level = ''Sehr niedrig'', color = ''red'',
      recommendation =
        ''Vorhersage nicht verl'' @ [CHR 0xC3, CHR 0xA4]
        @ ''sslich - manuelle Kalkulation erforderlich.''\<rparr>"

definition classify_confidence_level :: "real \<Rightarrow> confidence_level" where
  "classify_confidence_level confidence =
     (if confidence \<ge> 0.8 then level_sehr_hoch
      else if confidence \<ge> 0.6 then level_hoch
      else if confidence \<ge> 0.4 then level_mittel
      else if confidence \<ge> 0.2 then level_niedrig
      else level_sehr_niedrig)"

subsection \<open>\<open>ConfidenceCalculator.find_similar_projects\<close>\<close>

text \<open>
  The query \<open>Project.objects.exclude(description_embedding__isnull=True)
  .filter(is_finalized=True)\<close> keeps the rows with an embedding that are finalized.
  The rows arrive in the order the database gives them; \<open>Project.Meta.ordering =
  ['-project_date']\<close> makes that order descending in \<open>project_date\<close>.
\<close>

definition queryset :: "project list \<Rightarrow> project list" where
  "queryset table =
     filter (\<lambda>p. is_finalized p) (filter (\<lambda>p. description_embedding p \<noteq> None) table)"

definition meta_ordering :: "project list \<Rightarrow> bool" where
  "meta_ordering table = sorted_wrt (\<lambda>p q. project_date q \<le> project_date p) table"

text \<open>The loop: an exception of \<open>calculate_similarity\<close> is not caught here.\<close>

fun score_all :: "embedding \<Rightarrow> project list \<Rightarrow> py_error + project scored list" where
  "score_all new_embedding [] = Inr []"
| "score_all new_embedding (p # projects) =
     (case (case description_embedding p of
              None \<Rightarrow> Inl (ValueError ''Expected 2D array'')
            | Some emb \<Rightarrow> calculate_similarity new_embedding emb) of
        Inl e \<Rightarrow> Inl e
      | Inr sim \<Rightarrow>
          (case score_all new_embedding projects of
             Inl e \<Rightarrow> Inl e
           | Inr similarities \<Rightarrow> Inr (\<lparr>item = p, similarity = sim\<rparr> # similarities)))"

definition ConfidenceCalculator_find_similar_projects ::
    "sentence_transformer \<Rightarrow> project list \<Rightarrow> unicode \<Rightarrow> int \<Rightarrow> py_error + project scored list" where
  "ConfidenceCalculator_find_similar_projects model table new_project_description top_k =
     (case generate_embedding model new_project_description of
        Inl e \<Rightarrow> Inl e
      | Inr new_embedding \<Rightarrow>
          (case score_all new_embedding (queryset table) of
             Inl e \<Rightarrow> Inl e
           | Inr similarities \<Rightarrow> Inr (py_prefix (sort_by_similarity similarities) top_k)))"

text \<open>A finalized project with the given id, date and embedding, for the examples.\<close>

definition finalized_project :: "string \<Rightarrow> int \<Rightarrow> embedding \<Rightarrow> project" where
  "finalized_project pid date emb =
     \<lparr>project_id = pid, name = pid, project_type = ''Treppenbau'', final_price = 1000,
      project_date = date, description_embedding = Some emb, is_finalized = True\<rparr>"

text \<open>A stand-in for the model: every text is encoded as the same vector.\<close>

definition constant_model :: "embedding \<Rightarrow> sentence_transformer" where
  "constant_model v = \<lparr>encode = (\<lambda>t. Inr v), encode_batch = (\<lambda>ts. Inr (map (\<lambda>t. v) ts))\<rparr>"

section \<open>Price predictor (calculator/ml/price_predictor.py)\<close>

text \<open>
  A point in time is counted in nanoseconds since the epoch, as a pandas \<open>Timestamp\<close>
  is; the clock reading is a parameter \<open>now\<close> of every function that reads it.
\<close>

definition day_ns :: int where
  "day_ns = 86400 * 10 ^ 9"

subsection \<open>\<open>sklearn.preprocessing.LabelEncoder\<close>\<close>

text \<open>
  A fitted encoder is its list of classes: the distinct values seen by \<open>fit\<close>, sorted.
  \<open>transform\<close> maps a value to its position and raises \<open>ValueError\<close> when a value is
  not among the classes.
\<close>

type_synonym label_encoder = "string list"

definition fit :: "string list \<Rightarrow> label_encoder" where
  "fit ys = sort (remdups ys)"

fun index_of :: "'a \<Rightarrow> 'a list \<Rightarrow> nat" where
  "index_of x [] = 0"
| "index_of x (y # ys) = (if x = y then 0 else Suc (index_of x ys))"

definition transform :: "label_encoder \<Rightarrow> string list \<Rightarrow> py_error + nat list" where
  "transform classes ys =
     (if list_all (\<lambda>y. y \<in> set classes) ys
      then Inr (map (\<lambda>y. index_of y classes) ys)
      else Inl (ValueError ''y contains previously unseen labels''))"

subsection \<open>Data frames\<close>

text \<open>
  A data frame is a set of named columns; a column that the frame does not have is
  \<open>None\<close>, and reading it raises \<open>KeyError\<close>.
\<close>

record dataframe =
  col_total_area_sqm :: "real list option"
  col_complexity :: "real list option"
  col_wood_type :: "string list option"
  col_project_type :: "string list option"
  col_region :: "string list option"
  col_final_price :: "real list option"
  col_project_date :: "int list option"

definition getitem :: "'a option \<Rightarrow> string \<Rightarrow> py_error + 'a" where
  "getitem column col = (case column of None \<Rightarrow> Inl (KeyError col) | Some c \<Rightarrow> Inr c)"

fun categorical_column :: "dataframe \<Rightarrow> string \<Rightarrow> string list option" where
  "categorical_column df col =
     (if col = ''wood_type'' then col_wood_type df
      else if col = ''project_type'' then col_project_type df
      else if col = ''region'' then col_region df
      else None)"

record features_frame =
  ff_total_area_sqm :: "real list"
  ff_complexity :: "real list"
  ff_wood_type_encoded :: "nat list"
  ff_project_type_encoded :: "nat list"
  ff_region_encoded :: "nat list"
  ff_wood_area_interaction :: "real list"
  ff_complexity_area_interaction :: "real list"
  ff_months_old :: "real list option"
  ff_is_recent :: "int list option"

subsection \<open>\<open>PricePredictor\<close>\<close>

text \<open>The trained regressor is external: what matters here is its \<open>predict\<close>.\<close>

record price_predictor =
  xgb_model :: "(features_frame \<Rightarrow> real list) option"
  label_encoders :: "string \<rightharpoonup> label_encoder"
  feature_names :: "string list"
  model_version :: string

definition init_predictor :: price_predictor where
  "init_predictor =
     \<lparr>xgb_model = None, label_encoders = Map.empty, feature_names = [],
      model_version = ''v1.0.0''\<rparr>"

text \<open>
  One round of the loop over the categorical columns: an encoder that does not exist
  yet is fitted on the column, then the column is transformed.
\<close>

definition encode_column ::
    "(string \<rightharpoonup> label_encoder) \<Rightarrow> dataframe \<Rightarrow> string
     \<Rightarrow> py_error + (string \<rightharpoonup> label_encoder) \<times> nat list" where
  "encode_column encoders projects_df col =
     (case (case encoders col of
              None \<Rightarrow>
                (case getitem (categorical_column projects_df col) col of
                   Inl e \<Rightarrow> Inl e
                 | Inr ys \<Rightarrow> Inr (encoders(col \<mapsto> fit ys)))
            | Some _ \<Rightarrow> Inr encoders) of
        Inl e \<Rightarrow> Inl e
      | Inr encoders' \<Rightarrow>
          (case getitem (categorical_column projects_df col) col of
             Inl e \<Rightarrow> Inl e
           | Inr ys \<Rightarrow>
               (case encoders' col of
                  None \<Rightarrow> Inl (KeyError col)
                | Some classes \<Rightarrow>
                    (case transform classes ys of
                       Inl e \<Rightarrow> Inl e
                     | Inr codes \<Rightarrow> Inr (encoders', codes)))))"

definition months_old_column :: "int \<Rightarrow> int list \<Rightarrow> real list" where
  "months_old_column now dates =
     map (\<lambda>d. real_of_int ((now - d * day_ns) div day_ns) / 30) dates"

definition prepare_features ::
    "int \<Rightarrow> price_predictor \<Rightarrow> dataframe \<Rightarrow> py_error + price_predictor \<times> features_frame" where
  "prepare_features now self projects_df =
     (case getitem (col_total_area_sqm projects_df) ''total_area_sqm'' of
        Inl e \<Rightarrow> Inl e
      | Inr area \<Rightarrow>
     (case getitem (col_complexity projects_df) ''complexity'' of
        Inl e \<Rightarrow> Inl e
      | Inr complexity \<Rightarrow>
     (case encode_column (label_encoders self) projects_df ''wood_type'' of
        Inl e \<Rightarrow> Inl e
      | Inr (enc1, wood) \<Rightarrow>
     (case encode_column enc1 projects_df ''project_type'' of
        Inl e \<Rightarrow> Inl e
      | Inr (enc2, ptype) \<Rightarrow>
     (case encode_column enc2 projects_df ''region'' of
        Inl e \<Rightarrow> Inl e
      | Inr (enc3, region) \<Rightarrow>
          (let months = map_option (months_old_column now) (col_project_date projects_df);
               features =
                 \<lparr>ff_total_area_sqm = area,
                  ff_complexity = complexity,
                  ff_wood_type_encoded = wood,
                  ff_project_type_encoded = ptype,
                  ff_region_encoded = region,
                  ff_wood_area_interaction = map2 (\<lambda>a w. a * (real w + 1)) area wood,
                  ff_complexity_area_interaction = map2 (\<lambda>a c. a * c) area complexity,
                  ff_months_old = months,
                  ff_is_recent = map_option (map (\<lambda>m. if m < 6 then 1 else 0)) months\<rparr>;
               names =
                 [''total_area_sqm'', ''complexity'', ''wood_type_encoded'',
                  ''project_type_encoded'', ''region_encoded'', ''wood_area_interaction'',
                  ''complexity_area_interaction'']
                 @ (if months = None then [] else [''months_old'', ''is_recent''])
           in Inr (self\<lparr>label_encoders := enc3, feature_names := names\<rparr>, features)))))))"

text \<open>
  \<open>predict\<close> takes a dict; a key that the dict does not have is \<open>None\<close> here.  The
  frame built from it has one row and the dict's keys as columns.
\<close>

record project_data =
  pd_total_area_sqm :: "real option"
  pd_complexity :: "real option"
  pd_wood_type :: "string option"
  pd_project_type :: "string option"
  pd_region :: "string option"
  pd_project_date :: "int option"

definition dataframe_of_dict :: "project_data \<Rightarrow> dataframe" where
  "dataframe_of_dict d =
     \<lparr>col_total_area_sqm = map_option (\<lambda>x. [x]) (pd_total_area_sqm d),
      col_complexity = map_option (\<lambda>x. [x]) (pd_complexity d),
      col_wood_type = map_option (\<lambda>x. [x]) (pd_wood_type d),
      col_project_type = map_option (\<lambda>x. [x]) (pd_project_type d),
      col_region = map_option (\<lambda>x. [x]) (pd_region d),
      col_final_price = None,
      col_project_date = map_option (\<lambda>x. [x]) (pd_project_date d)\<rparr>"

definition predict :: "int \<Rightarrow> price_predictor \<Rightarrow> project_data \<Rightarrow> py_error + real" where
  "predict now self d =
     (case xgb_model self of
        None \<Rightarrow> Inl (ValueError ''Modell muss erst trainiert oder geladen werden.'')
      | Some regressor \<Rightarrow>
          (case prepare_features now self (dataframe_of_dict d) of
             Inl e \<Rightarrow> Inl e
           | Inr (self', X) \<Rightarrow>
               (case regressor X of
                  [] \<Rightarrow> Inl (IndexError ''index 0 is out of bounds'')
                | predicted_price # _ \<Rightarrow> Inr predicted_price)))"

text \<open>
  \<open>train\<close> reads seven fields of every row of the query set.  The split into training
  and test rows, the fitting of the regressor and the computation of the metrics are
  external; they are the parameter \<open>fit_and_evaluate\<close>.
\<close>

record values_row =
  v_total_area_sqm :: real
  v_wood_type :: string
  v_project_type :: string
  v_region :: string
  v_complexity :: real
  v_final_price :: real
  v_project_date :: int

record metrics =
  train_mape :: real
  test_mape :: real
  train_rmse :: real
  test_rmse :: real
  training_samples :: nat
  test_samples :: nat
  metrics_model_version :: string

definition dataframe_of_values :: "values_row list \<Rightarrow> dataframe" where
  "dataframe_of_values vs =
     (if vs = [] then
        \<lparr>col_total_area_sqm = None, col_complexity = None, col_wood_type = None,
         col_project_type = None, col_region = None, col_final_price = None,
         col_project_date = None\<rparr>
      else
        \<lparr>col_total_area_sqm = Some (map v_total_area_sqm vs),
         col_complexity = Some (map v_complexity vs),
         col_wood_type = Some (map v_wood_type vs),
         col_project_type = Some (map v_project_type vs),
         col_region = Some (map v_region vs),
         col_final_price = Some (map v_final_price vs),
         col_project_date = Some (map v_project_date vs)\<rparr>)"

definition train ::
    "(features_frame \<Rightarrow> real list \<Rightarrow> real \<Rightarrow> (features_frame \<Rightarrow> real list) \<times> metrics)
     \<Rightarrow> int \<Rightarrow> price_predictor \<Rightarrow> values_row list \<Rightarrow> real
     \<Rightarrow> py_error + price_predictor \<times> metrics" where
  "train fit_and_evaluate now self projects_queryset test_size =
     (let df = dataframe_of_values projects_queryset in
      if length projects_queryset < 30
      then Inl (ValueError (''Mindestens 30 Projekte ben'' @ [CHR 0xC3, CHR 0xB6]
                            @ ''tigt, nur '' @ str_nat (length projects_queryset)
                            @ '' vorhanden.''))
      else
        (case prepare_features now self df of
           Inl e \<Rightarrow> Inl e
         | Inr (self', X) \<Rightarrow>
             (case getitem (col_final_price df) ''final_price'' of
                Inl e \<Rightarrow> Inl e
              | Inr y \<Rightarrow>
                  (let (regressor, m) = fit_and_evaluate X y test_size
                   in Inr (self'\<lparr>xgb_model := Some regressor\<rparr>,
                           m\<lparr>metrics_model_version := model_version self'\<rparr>)))))"

text \<open>
  Examples: a row of the query set, a stand-in for the external fitting step, a
  predictor whose encoders were fitted on the listed classes and whose regressor returns
  100 per square metre, and a prediction input.
\<close>

definition example_row :: values_row where
  "example_row =
     \<lparr>v_total_area_sqm = 25.5, v_wood_type = ''Eiche'', v_project_type = ''Treppenbau'',
      v_region = ''NRW'', v_complexity = 3, v_final_price = 2550, v_project_date = 19000\<rparr>"

definition constant_fit ::
    "features_frame \<Rightarrow> real list \<Rightarrow> real \<Rightarrow> (features_frame \<Rightarrow> real list) \<times> metrics" where
  "constant_fit X y test_size =
     ((\<lambda>X'. map (\<lambda>a. 100 * a) (ff_total_area_sqm X')),
      \<lparr>train_mape = 0, test_mape = 0, train_rmse = 0, test_rmse = 0,
       training_samples = length y, test_samples = 0, metrics_model_version = []\<rparr>)"

definition trained_predictor :: price_predictor where
  "trained_predictor =
     \<lparr>xgb_model = Some (\<lambda>X. map (\<lambda>a. 100 * a) (ff_total_area_sqm X)),
      label_encoders =
        [''wood_type'' \<mapsto> [''Eiche'', ''Kiefer''], ''project_type'' \<mapsto> [''Treppenbau''],
         ''region'' \<mapsto> [''NRW'']],
      feature_names = [],
      model_version = ''v1.0.0''\<rparr>"

definition example_data :: "string \<Rightarrow> project_data" where
  "example_data wood =
     \<lparr>pd_total_area_sqm = Some 25.5, pd_complexity = Some 3, pd_wood_type = Some wood,
      pd_project_type = Some ''Treppenbau'', pd_region = Some ''NRW'',
      pd_project_date = None\<rparr>"

section \<open>Feature engineering (calculator/ml/feature_engineer.py)\<close>

text \<open>
  \<open>extract_features\<close> takes a dict whose values are arbitrary Python objects, of type
  \<open>'v\<close> here.  What Python's \<open>float\<close>, \<open>int\<close> and \<open>str\<close> and pandas' \<open>to_datetime\<close>
  make of such an object is given by a record of functions.  \<open>to_datetime\<close> is \<open>None\<close>
  when the conversion, or the subtraction from the clock reading, raises or gives
  \<open>NaT\<close>: the source treats all of these alike.
\<close>

record 'v builtins =
  py_float :: "'v \<Rightarrow> py_error + real"
  py_int :: "'v \<Rightarrow> py_error + int"
  py_str :: "'v \<Rightarrow> string"
  to_datetime :: "'v \<Rightarrow> int option"

record features =
  feat_total_area_sqm :: real
  feat_complexity :: int
  feat_wood_type :: string
  feat_project_type :: string
  feat_region :: string
  feat_area_per_complexity :: real
  feat_months_old :: real
  feat_is_recent :: int

definition temporal_features :: "'v builtins \<Rightarrow> int \<Rightarrow> (string \<rightharpoonup> 'v) \<Rightarrow> real \<times> int" where
  "temporal_features lib now project_dict =
     (case project_dict ''project_date'' of
        None \<Rightarrow> (0, 0)
      | Some v \<Rightarrow>
          (case to_datetime lib v of
             None \<Rightarrow> (0, 0)
           | Some date \<Rightarrow>
               (let days_old = (now - date) div day_ns
                in (max 0 (real_of_int days_old / 30), if days_old < 180 then 1 else 0))))"

definition extract_features ::
    "'v builtins \<Rightarrow> int \<Rightarrow> (string \<rightharpoonup> 'v) \<Rightarrow> py_error + features" where
  "extract_features lib now project_dict =
     (case (case project_dict ''total_area_sqm'' of None \<Rightarrow> Inr 0 | Some v \<Rightarrow> py_float lib v) of
        Inl e \<Rightarrow> Inl e
      | Inr area \<Rightarrow>
     (case (case project_dict ''complexity'' of None \<Rightarrow> Inr 1 | Some v \<Rightarrow> py_int lib v) of
        Inl e \<Rightarrow> Inl e
      | Inr complexity \<Rightarrow>
          (let (months, recent) = temporal_features lib now project_dict
           in Inr \<lparr>feat_total_area_sqm = area,
                   feat_complexity = complexity,
                   feat_wood_type =
                     (case project_dict ''wood_type'' of
                        None \<Rightarrow> ''Unbekannt'' | Some v \<Rightarrow> py_str lib v),
                   feat_project_type =
                     (case project_dict ''project_type'' of
                        None \<Rightarrow> ''Sonstiges'' | Some v \<Rightarrow> py_str lib v),
                   feat_region =
                     (case project_dict ''region'' of
                        None \<Rightarrow> ''Deutschland'' | Some v \<Rightarrow> py_str lib v),
                   feat_area_per_complexity = area / real_of_int (max complexity 1),
                   feat_months_old = months,
                   feat_is_recent = recent\<rparr>)))"

text \<open>
  The builtins on Python integers: \<open>float\<close> and \<open>int\<close> keep the value, \<open>str\<close> gives
  the decimal digits, and \<open>to_datetime\<close> reads the integer as nanoseconds since the
  epoch, within the range of a 64-bit timestamp.
\<close>

definition int_builtins :: "int builtins" where
  "int_builtins =
     \<lparr>py_float = (\<lambda>i. Inr (real_of_int i)),
      py_int = (\<lambda>i. Inr i),
      py_str = (\<lambda>i. if i < 0 then CHR ''-'' # str_nat (nat (- i)) else str_nat (nat i)),
      to_datetime = (\<lambda>i. if - (2 ^ 63) < i \<and> i < 2 ^ 63 then Some i else None)\<rparr>"

section \<open>Auxiliary facts\<close>

subsection \<open>Rounding\<close>

lemma round_half_even_of_int: "round_half_even (of_int n) = n"
  by (simp add: round_half_even_def)

lemma round_half_even_bounds:
  "\<lfloor>x\<rfloor> \<le> round_half_even x" "round_half_even x \<le> \<lfloor>x\<rfloor> + 1"
  by (simp_all add: round_half_even_def Let_def)

lemma round_half_even_mono:
  assumes "x \<le> y" shows "round_half_even x \<le> round_half_even y"
proof (cases "\<lfloor>x\<rfloor> = \<lfloor>y\<rfloor>")
  case True
  then have "x - of_int \<lfloor>x\<rfloor> \<le> y - of_int \<lfloor>y\<rfloor>" using assms by simp
  then show ?thesis using True by (auto simp: round_half_even_def Let_def)
next
  case False
  then have "\<lfloor>x\<rfloor> + 1 \<le> \<lfloor>y\<rfloor>" using floor_mono [OF assms] by linarith
  then show ?thesis using round_half_even_bounds(2) [of x] round_half_even_bounds(1) [of y]
    by linarith
qed

lemma round_half_even_nearest:
  assumes "of_int n - 1 / 2 < x" "x < of_int n + 1 / 2"
  shows "round_half_even x = n"
proof (cases "of_int n \<le> x")
  case True
  then have "\<lfloor>x\<rfloor> = n" using assms by linarith
  then show ?thesis using assms by (simp add: round_half_even_def Let_def)
next
  case False
  then have f: "\<lfloor>x\<rfloor> = n - 1" using assms by linarith
  then show ?thesis using assms False by (simp add: round_half_even_def Let_def)
qed

lemma py_round_mono: "x \<le> y \<Longrightarrow> py_round x k \<le> py_round y k"
  unfolding py_round_def
  by (intro divide_right_mono) (auto intro!: round_half_even_mono mult_right_mono)

lemma py_round_unit: 
  assumes "0 \<le> x" "x \<le> 1" shows "0 \<le> py_round x k \<and> py_round x k \<le> 1"
proof -
  have "py_round 0 k \<le> py_round x k" "py_round x k \<le> py_round 1 k"
    using assms by (auto intro: py_round_mono)
  moreover have "py_round 0 k = 0" by (simp add: py_round_def round_half_even_def)
  moreover have "py_round 1 k = 1"
    using round_half_even_of_int [of "10 ^ k"] by (simp add: py_round_def)
  ultimately show ?thesis by simp
qed

subsection \<open>Bounds on the logarithm and the exponential\<close>

lemma ln_ratio_upper:
  fixes a b :: real
  assumes "1 < b" "0 < a" "a ^ q < b ^ p" "0 < q"
  shows "ln a / ln b < real p / real q"
proof -
  have "ln (a ^ q) < ln (b ^ p)" using assms by (simp)
  then have "real q * ln a < real p * ln b" using assms by (simp add: ln_realpow)
  moreover have "0 < ln b" using assms by simp
  ultimately show ?thesis using assms by (simp add: field_simps)
qed

lemma ln_ratio_lower:
  fixes a b :: real
  assumes "1 < b" "0 < a" "b ^ p < a ^ q" "0 < q"
  shows "real p / real q < ln a / ln b"
proof -
  have "ln (b ^ p) < ln (a ^ q)" using assms by (simp)
  then have "real p * ln b < real q * ln a" using assms by (simp add: ln_realpow)
  moreover have "0 < ln b" using assms by simp
  ultimately show ?thesis using assms by (simp add: field_simps)
qed

lemma ln6_ln100_upper: "ln (6::real) / ln 100 < 114 / 293"
  using ln_ratio_upper [of 100 6 293 114] by simp

lemma ln6_ln100_lower: "7 / 18 < ln (6::real) / ln 100"
  using ln_ratio_lower [of 100 6 7 18] by simp

lemma exp_m06_upper: "exp (- (3 / 5) :: real) \<le> 137203 / 250000"
proof -
  obtain t where "exp (- (3 / 5) :: real) = (\<Sum>m<9. (- (3 / 5)) ^ m / fact m) + exp t / fact 9 * (- (3 / 5)) ^ 9"
    using Maclaurin_exp_le [of "- (3 / 5)" 9] by blast
  moreover have "exp t / fact 9 * (- (3 / 5)) ^ 9 \<le> 0"
    by (simp add: divide_nonneg_pos mult_nonneg_nonpos)
  moreover have "(\<Sum>m<9. (- (3 / 5 :: real)) ^ m / fact m) \<le> 137203 / 250000"
    by (simp add: lessThan_nat_numeral lessThan_Suc fact_numeral power_divide)
  ultimately show ?thesis by linarith
qed

lemma exp_m06_lower: "68 / 125 \<le> exp (- (3 / 5) :: real)"
proof -
  obtain t where "exp (- (3 / 5) :: real) = (\<Sum>m<4. (- (3 / 5)) ^ m / fact m) + exp t / fact 4 * (- (3 / 5)) ^ 4"
    using Maclaurin_exp_le [of "- (3 / 5)" 4] by blast
  moreover have "0 \<le> exp t / fact 4 * (- (3 / 5)) ^ 4"
    by simp
  moreover have "(\<Sum>m<4. (- (3 / 5 :: real)) ^ m / fact m) = 68 / 125"
    by (simp add: lessThan_nat_numeral lessThan_Suc fact_numeral power_divide)
  ultimately show ?thesis by linarith
qed

subsection \<open>The components of the confidence score\<close>

lemma similarity_score_5: "similarity_score 5 = ln 6 / ln 100"
  using ln6_ln100_upper by (simp add: similarity_score_def)

lemma variance_score_example: "variance_score 5000 15000 = 3 / 4"
  by (simp add: variance_score_def)

lemma quality_score_example: "quality_score 0.8 = 0.8"
  by (simp add: quality_score_def)

lemma temporal_score_6: "temporal_score 6 = exp (- (3 / 5))"
  by (simp add: temporal_score_def)

lemma scenario_value: "calculate_confidence 5 5000 15000 0.8 6 = 0.603"
proof -
  let ?c = "0.35 * (ln 6 / ln 100) + 0.30 * (3 / 4) + 0.20 * 0.8 + 0.15 * exp (- (3 / 5)) :: real"
  have lo: "of_int 603 - 1 / 2 < ?c * 10 ^ 3"
    using ln6_ln100_lower exp_m06_lower by simp
  have hi: "?c * 10 ^ 3 < of_int 603 + 1 / 2"
    using ln6_ln100_upper exp_m06_upper by simp
  have "round_half_even (?c * 10 ^ 3) = 603"
    by (rule round_half_even_nearest [OF lo hi])
  then have "py_round ?c 3 = 0.603" by (simp add: py_round_def)
  then show ?thesis
    by (simp add: calculate_confidence_def similarity_score_5 variance_score_example
        quality_score_def temporal_score_6)
qed

lemma similarity_score_bounds:
  assumes "0 \<le> n" shows "0 \<le> similarity_score n \<and> similarity_score n \<le> 1"
proof -
  have "0 \<le> ln (1 + real_of_int n)" using assms by simp
  moreover have "0 < ln (100::real)" by simp
  ultimately show ?thesis by (simp add: similarity_score_def)
qed

lemma similarity_score_0: "similarity_score 0 = 0"
  by (simp add: similarity_score_def)

lemma variance_score_bounds: "0 < variance_score v p \<and> variance_score v p \<le> 1"
  by (simp add: variance_score_def field_simps add_pos_nonneg)

lemma quality_score_bounds: "0 \<le> quality_score q \<and> quality_score q \<le> 1"
  by (simp add: quality_score_def)

lemma temporal_score_bounds: "0 \<le> m \<Longrightarrow> 0 < temporal_score m \<and> temporal_score m \<le> 1"
  by (simp add: temporal_score_def)

lemma calculate_confidence_unit:
  assumes "0 \<le> n" "0 \<le> m"
  shows "0 \<le> calculate_confidence n v p q m \<and> calculate_confidence n v p q m \<le> 1"
proof -
  let ?c = "0.35 * similarity_score n + 0.30 * variance_score v p + 0.20 * quality_score q + 0.15 * temporal_score m"
  have "0 \<le> ?c \<and> ?c \<le> 1"
    using similarity_score_bounds [OF assms(1)] variance_score_bounds [of v p]
      quality_score_bounds [of q] temporal_score_bounds [OF assms(2)]
    by simp
  then show ?thesis using py_round_unit [of ?c 3] by (simp add: calculate_confidence_def)
qed

lemma similarity_score_mono:
  assumes "0 \<le> n" "n \<le> n'" shows "similarity_score n \<le> similarity_score n'"
proof -
  have "ln (1 + real_of_int n) \<le> ln (1 + real_of_int n')" using assms by simp
  moreover have "0 < ln (100::real)" by simp
  ultimately have "ln (1 + real_of_int n) / ln 100 \<le> ln (1 + real_of_int n') / ln 100"
    by (simp add: divide_right_mono)
  then show ?thesis unfolding similarity_score_def by (simp add: min_le_iff_disj)
qed

lemma quality_score_mono: "q \<le> q' \<Longrightarrow> quality_score q \<le> quality_score q'"
  by (auto simp: quality_score_def)

subsection \<open>Slicing, sorting and ties\<close>

lemma set_py_prefix: "set (py_prefix xs k) \<subseteq> set xs"
  by (auto simp: py_prefix_def dest: in_set_takeD)

lemma sorted_wrt_py_prefix: "sorted_wrt R xs \<Longrightarrow> sorted_wrt R (py_prefix xs k)"
  by (simp add: py_prefix_def sorted_wrt_take)

lemma prefix_py_prefix: "prefix (py_prefix xs k) xs"
  by (simp add: py_prefix_def take_is_prefix)

lemma length_py_prefix: "0 \<le> k \<Longrightarrow> length (py_prefix xs k) = min (nat k) (length xs)"
  by (simp add: py_prefix_def)

lemma sorted_sort_by_similarity:
  "sorted_wrt (\<lambda>a b. similarity b \<le> similarity a) (sort_by_similarity xs)"
proof -
  have "sorted (map (\<lambda>x. - similarity x) (sort_key (\<lambda>x. - similarity x) xs))"
    by (rule sorted_sort_key)
  then show ?thesis by (simp add: sort_by_similarity_def sorted_map)
qed

lemma collect_similar_threshold:
  "e \<in> set (collect_similar q ps) \<Longrightarrow> 0.3 < similarity e"
  by (induction ps) (auto split: option.splits sum.splits if_splits)

lemma score_all_length: "score_all q ps = Inr r \<Longrightarrow> length r = length ps"
  by (induction ps arbitrary: r) (auto split: option.splits sum.splits)

lemma score_all_items: "score_all q ps = Inr r \<Longrightarrow> map item r = ps"
  by (induction ps arbitrary: r) (auto split: option.splits sum.splits)

lemma insort_key_ties:
  assumes "sorted (map f ys)" "sorted_wrt (\<lambda>a b. f a = f b \<longrightarrow> D a b) ys"
    "\<forall>y\<in>set ys. f x = f y \<longrightarrow> D x y"
  shows "sorted_wrt (\<lambda>a b. f a = f b \<longrightarrow> D a b) (insort_key f x ys)"
  using assms
proof (induction ys)
  case Nil
  then show ?case by simp
next
  case (Cons y ys)
  show ?case
  proof (cases "f x \<le> f y")
    case True
    then show ?thesis using Cons.prems by simp
  next
    case False
    have "sorted_wrt (\<lambda>a b. f a = f b \<longrightarrow> D a b) (insort_key f x ys)"
      using Cons by simp
    moreover have "\<forall>z\<in>set (insort_key f x ys). f y = f z \<longrightarrow> D y z"
      using Cons.prems False by (auto simp: set_insort_key)
    ultimately show ?thesis using False by simp
  qed
qed

lemma sort_key_ties:
  assumes "sorted_wrt D xs"
  shows "sorted_wrt (\<lambda>a b. f a = f b \<longrightarrow> D a b) (sort_key f xs)"
  using assms
proof (induction xs)
  case Nil
  then show ?case by simp
next
  case (Cons x xs)
  then show ?case
    by (auto intro!: insort_key_ties)
qed

lemma queryset_ordering: "meta_ordering t \<Longrightarrow> meta_ordering (queryset t)"
  by (simp add: meta_ordering_def queryset_def sorted_wrt_filter)

lemma score_all_ordering:
  assumes "score_all q ps = Inr r" "meta_ordering ps"
  shows "sorted_wrt (\<lambda>a b. project_date (item b) \<le> project_date (item a)) r"
proof -
  have "map item r = ps" using assms(1) by (rule score_all_items)
  then have "sorted_wrt (\<lambda>p q. project_date q \<le> project_date p) (map item r)"
    using assms(2) by (simp add: meta_ordering_def)
  then show ?thesis by (simp add: sorted_wrt_map)
qed

lemma sort_by_similarity_ties:
  assumes "sorted_wrt (\<lambda>a b. project_date (item b) \<le> project_date (item a)) r"
  shows "sorted_wrt (\<lambda>a b. similarity a = similarity b \<longrightarrow>
            project_date (item b) \<le> project_date (item a)) (sort_by_similarity r)"
  using sort_key_ties [OF assms, of "\<lambda>x. - similarity x"]
  by (simp add: sort_by_similarity_def)

lemma sort_by_similarity_stable:
  "filter (\<lambda>e. similarity e = s) (sort_by_similarity xs) = filter (\<lambda>e. similarity e = s) xs"
  using sort_key_stable [of "\<lambda>x. - similarity x" "- s" xs]
  by (simp add: sort_by_similarity_def)

subsection \<open>Similarities of the example vectors\<close>

lemma sqrt_100: "sqrt 100 = 10"
  using real_sqrt_abs [of 10] by simp

lemma calculate_similarity_axis:
  "calculate_similarity [1, 0] [1, 0] = Inr 1"
  "calculate_similarity [1, 0] [0, 1] = Inr 0"
  by (simp_all add: calculate_similarity_def normalize_def row_norm_def dot_def)

lemma calculate_similarity_threshold:
  "calculate_similarity [1, 0, 0, 0] [3, 9, 3, 1] = Inr 0.3"
  by (simp add: calculate_similarity_def normalize_def row_norm_def dot_def sqrt_100)

lemma generate_embedding_constant: "generate_embedding (constant_model v) [97] = Inr v"
  by (simp add: generate_embedding_def constant_model_def py_strip_def py_isspace_def)

subsection \<open>Embedding, encoder and predictor examples\<close>

lemma replicate_one_zero: "replicate 384 (1::real) \<noteq> replicate 384 0"
  by (simp add: replicate_eq_replicate)

lemma str_nat_10: "str_nat 10 = ''10''"
  by code_simp

lemma transform_single:
  "transform classes [y] =
     (if y \<in> set classes then Inr [index_of y classes]
      else Inl (ValueError ''y contains previously unseen labels''))"
  by (simp add: transform_def)

lemma encode_column_fitted:
  assumes "encoders col = Some classes" "categorical_column df col = Some [y]"
  shows "encode_column encoders df col =
           (if y \<in> set classes then Inr (encoders, [index_of y classes])
            else Inl (ValueError ''y contains previously unseen labels''))"
  using assms by (simp add: encode_column_def getitem_def transform_single del: categorical_column.simps)

lemma predict_trained_unseen:
  "predict 0 trained_predictor (example_data ''Buche'')
     = Inl (ValueError ''y contains previously unseen labels'')"
  by (simp add: predict_def trained_predictor_def example_data_def prepare_features_def
      dataframe_of_dict_def getitem_def encode_column_def transform_def)

section \<open>Properties\<close>

text \<open>
  Claim C10.  \<open>classify_confidence_level\<close> is defined on every real number and returns one
  of the five tier records, chosen by the first inclusive lower bound that holds: every
  input of at least 0.8, also above 1, gets the tier \<open>Sehr hoch\<close>, and every input below
  0.2, also a negative one, gets the tier \<open>Sehr niedrig\<close>.
\<close>

theorem classify_confidence_level_total:
  "classify_confidence_level c \<in>
     {level_sehr_hoch, level_hoch, level_mittel, level_niedrig, level_sehr_niedrig}
   \<and> distinct [level_sehr_hoch, level_hoch, level_mittel, level_niedrig, level_sehr_niedrig]
   \<and> (0.8 \<le> c \<longrightarrow> classify_confidence_level c = level_sehr_hoch)
   \<and> (0.6 \<le> c \<and> c < 0.8 \<longrightarrow> classify_confidence_level c = level_hoch)
   \<and> (0.4 \<le> c \<and> c < 0.6 \<longrightarrow> classify_confidence_level c = level_mittel)
   \<and> (0.2 \<le> c \<and> c < 0.4 \<longrightarrow> classify_confidence_level c = level_niedrig)
   \<and> (c < 0.2 \<longrightarrow> classify_confidence_level c = level_sehr_niedrig)
   \<and> level level_sehr_hoch = ''Sehr hoch'' \<and> level level_sehr_niedrig = ''Sehr niedrig''"
  by (simp add: classify_confidence_level_def level_sehr_hoch_def level_hoch_def
      level_mittel_def level_niedrig_def level_sehr_niedrig_def)

theorem classify_confidence_level_total_witness:
  "level (classify_confidence_level 1.7) = ''Sehr hoch''
   \<and> level (classify_confidence_level (- 3)) = ''Sehr niedrig''"
  using classify_confidence_level_total [of "1.7"] classify_confidence_level_total [of "- 3"]
  by (simp add: level_sehr_hoch_def level_sehr_niedrig_def)

text \<open>
  Claim C1, as amended.  For \<open>similar_projects_count = 5\<close>, \<open>price_variance = 5000\<close>,
  \<open>predicted_price = 15000\<close>, \<open>data_quality_score = 0.8\<close> and \<open>avg_months_old = 6\<close>
  the weighted sum \<open>0.35 * (ln 6 / ln 100) + 0.30 * 0.75 + 0.20 * 0.8 + 0.15 * exp (-0.6)\<close>
  rounds to 0.603, and classifying that value gives the tier \<open>Hoch\<close>, the branch for
  values of at least 0.6.
\<close>

theorem calculate_confidence_scenario:
  "calculate_confidence 5 5000 15000 0.8 6 = 0.603
   \<and> classify_confidence_level (calculate_confidence 5 5000 15000 0.8 6) = level_hoch
   \<and> level level_hoch = ''Hoch''"
  using scenario_value by (simp add: classify_confidence_level_def level_hoch_def)

text \<open>The value 0.638 of the claim is not within 0.03 of the result.\<close>

theorem calculate_confidence_scenario_counterexample:
  "\<not> \<bar>calculate_confidence 5 5000 15000 0.8 6 - 0.638\<bar> < 0.03"
  using scenario_value by simp

text \<open>
  Claim C7.  The temporal component is not bounded for a negative \<open>avg_months_old\<close>:
  with a count of 0, variance 0, price 1, quality 0 and an average age of -100 months
  the result is greater than 1.
\<close>

theorem calculate_confidence_exceeds_one:
  "1 < calculate_confidence 0 0 1 0 (- 100)"
proof -
  let ?c = "0.35 * similarity_score 0 + 0.30 * variance_score 0 1
            + 0.20 * quality_score 0 + 0.15 * temporal_score (- 100)"
  have "1 + 10 \<le> exp (10::real)" by (rule exp_ge_add_one_self)
  then have "3 / 2 \<le> ?c"
    by (simp add: similarity_score_0 variance_score_def quality_score_def temporal_score_def)
  then have "py_round (3 / 2) 3 \<le> py_round ?c 3" by (rule py_round_mono)
  moreover have "py_round (3 / 2) 3 = 3 / 2"
    using round_half_even_of_int [of 1500] by (simp add: py_round_def)
  ultimately show ?thesis by (simp add: calculate_confidence_def)
qed

text \<open>
  Claim C8.  With the other four inputs fixed, \<open>calculate_confidence\<close> does not decrease
  when \<open>similar_projects_count\<close> grows (from a count of at least 0), and it does not
  decrease when \<open>data_quality_score\<close> grows.
\<close>

theorem calculate_confidence_mono:
  "(0 \<le> n \<and> n \<le> n' \<longrightarrow>
      calculate_confidence n v p q m \<le> calculate_confidence n' v p q m)
   \<and> (q \<le> q' \<longrightarrow>
      calculate_confidence n v p q m \<le> calculate_confidence n v p q' m)"
  unfolding calculate_confidence_def Let_def
  using similarity_score_mono [of n n'] quality_score_mono [of q q']
  by (auto intro!: py_round_mono)

theorem calculate_confidence_mono_witness:
  "calculate_confidence 2 100 1000 0.5 3 \<le> calculate_confidence 7 100 1000 0.5 3
   \<and> calculate_confidence 2 100 1000 0.3 3 \<le> calculate_confidence 2 100 1000 0.9 3"
  using calculate_confidence_mono [of 2 7 100 1000 "0.5" 3 "0.5"]
    calculate_confidence_mono [of 2 2 100 1000 "0.3" 3 "0.9"]
  by simp

text \<open>
  Claim C2, as amended.  \<open>EmbeddingGenerator.find_similar_projects\<close> has no threshold
  parameter: it returns only entries whose similarity is greater than the constant 0.3
  (an entry at exactly 0.3 is left out), sorted in descending order of similarity.
  \<open>ConfidenceCalculator.find_similar_projects\<close> applies no threshold: its result is
  sorted in descending order of similarity and, for a non-negative \<open>top_k\<close>, holds the
  first \<open>top_k\<close> of all finalized projects with an embedding.
\<close>

theorem find_similar_threshold_sorted:
  "(\<forall>e \<in> set (EmbeddingGenerator_find_similar_projects q ps k). 0.3 < similarity e)
   \<and> sorted_wrt (\<lambda>a b. similarity b \<le> similarity a)
        (EmbeddingGenerator_find_similar_projects q ps k)
   \<and> (ConfidenceCalculator_find_similar_projects m t d k = Inr r \<longrightarrow>
        sorted_wrt (\<lambda>a b. similarity b \<le> similarity a) r
        \<and> (0 \<le> k \<longrightarrow> length r = min (nat k) (length (queryset t))))"
proof (intro conjI ballI impI)
  fix e assume "e \<in> set (EmbeddingGenerator_find_similar_projects q ps k)"
  then have "e \<in> set (collect_similar q ps)"
    using set_py_prefix [of "sort_by_similarity (collect_similar q ps)" k]
    by (auto simp: EmbeddingGenerator_find_similar_projects_def sort_by_similarity_def)
  then show "0.3 < similarity e" by (rule collect_similar_threshold)
next
  show "sorted_wrt (\<lambda>a b. similarity b \<le> similarity a)
        (EmbeddingGenerator_find_similar_projects q ps k)"
    by (simp add: EmbeddingGenerator_find_similar_projects_def sorted_wrt_py_prefix
        sorted_sort_by_similarity)
next
  assume "ConfidenceCalculator_find_similar_projects m t d k = Inr r"
  then obtain sims where s: "score_all (case generate_embedding m d of Inr e \<Rightarrow> e | Inl _ \<Rightarrow> []) (queryset t) = Inr sims"
    and r: "r = py_prefix (sort_by_similarity sims) k"
    by (auto simp: ConfidenceCalculator_find_similar_projects_def split: sum.splits)
  show "sorted_wrt (\<lambda>a b. similarity b \<le> similarity a) r"
    by (simp add: r sorted_wrt_py_prefix sorted_sort_by_similarity)
  show "length r = min (nat k) (length (queryset t))" if "0 \<le> k"
    using that score_all_length [OF s] by (simp add: r length_py_prefix sort_by_similarity_def)
qed

theorem find_similar_threshold_sorted_witness:
  "EmbeddingGenerator_find_similar_projects [1, 0]
      [finalized_project ''a'' 10 [0, 1], finalized_project ''b'' 20 [1, 0]] 5
    = [\<lparr>item = \<lparr>summary_id = ''b'', summary_name = ''b'', summary_type = ''Treppenbau'',
                 summary_price = 1000\<rparr>, similarity = 1\<rparr>]
   \<and> sorted_wrt (\<lambda>a b. similarity b \<le> similarity a)
        (EmbeddingGenerator_find_similar_projects [1, 0]
           [finalized_project ''a'' 10 [0, 1], finalized_project ''b'' 20 [1, 0]] 5)
   \<and> ConfidenceCalculator_find_similar_projects (constant_model [1, 0])
      [finalized_project ''a'' 10 [0, 1], finalized_project ''b'' 20 [1, 0]] [97] 5
    = Inr [\<lparr>item = finalized_project ''b'' 20 [1, 0], similarity = 1\<rparr>,
           \<lparr>item = finalized_project ''a'' 10 [0, 1], similarity = 0\<rparr>]
   \<and> sorted_wrt (\<lambda>a b. similarity b \<le> similarity a)
        [\<lparr>item = finalized_project ''b'' 20 [1, 0], similarity = 1\<rparr>,
         \<lparr>item = finalized_project ''a'' 10 [0, 1], similarity = 0\<rparr>]"
proof -
  let ?ps = "[finalized_project ''a'' 10 [0, 1], finalized_project ''b'' 20 [1, 0]]"
  let ?r = "[\<lparr>item = finalized_project ''b'' 20 [1, 0], similarity = 1\<rparr>,
           \<lparr>item = finalized_project ''a'' 10 [0, 1], similarity = 0\<rparr>]"
  have e: "EmbeddingGenerator_find_similar_projects [1, 0] ?ps 5
    = [\<lparr>item = \<lparr>summary_id = ''b'', summary_name = ''b'', summary_type = ''Treppenbau'',
                 summary_price = 1000\<rparr>, similarity = 1\<rparr>]"
    by (simp add: EmbeddingGenerator_find_similar_projects_def finalized_project_def
        calculate_similarity_axis sort_by_similarity_def py_prefix_def)
  have c: "ConfidenceCalculator_find_similar_projects (constant_model [1, 0]) ?ps [97] 5 = Inr ?r"
    by (simp add: ConfidenceCalculator_find_similar_projects_def generate_embedding_constant
        queryset_def finalized_project_def calculate_similarity_axis sort_by_similarity_def
        py_prefix_def)
  show ?thesis
    using find_similar_threshold_sorted
      [where q = "[1, 0]" and ps = ?ps and k = 5 and m = "constant_model [1, 0]" and t = ?ps
         and d = "[97]" and r = ?r] e c
    by simp
qed

text \<open>
  An entry with similarity 0 is returned by \<open>ConfidenceCalculator.find_similar_projects\<close>,
  and a project whose similarity is exactly 0.3 is not returned by
  \<open>EmbeddingGenerator.find_similar_projects\<close>.
\<close>

theorem find_similar_threshold_counterexample:
  "ConfidenceCalculator_find_similar_projects (constant_model [1, 0])
      [finalized_project ''a'' 10 [0, 1]] [97] 20
    = Inr [\<lparr>item = finalized_project ''a'' 10 [0, 1], similarity = 0\<rparr>]
   \<and> calculate_similarity [1, 0, 0, 0] [3, 9, 3, 1] = Inr 0.3
   \<and> EmbeddingGenerator_find_similar_projects [1, 0, 0, 0]
        [finalized_project ''c'' 10 [3, 9, 3, 1]] 5 = []"
  by (simp add: ConfidenceCalculator_find_similar_projects_def generate_embedding_constant
      queryset_def finalized_project_def calculate_similarity_axis calculate_similarity_threshold
      sort_by_similarity_def py_prefix_def EmbeddingGenerator_find_similar_projects_def)

text \<open>
  Claim C5, as amended.  Both functions sort by similarity alone, with a stable sort, so
  entries with equal similarity keep the order of the corpus.  For
  \<open>ConfidenceCalculator.find_similar_projects\<close> the corpus is the query set in the model's
  default ordering, newest \<open>project_date\<close> first, so tied entries come out with the more
  recent date first.  \<open>EmbeddingGenerator.find_similar_projects\<close> returns tied entries in
  the order of the list it is given.
\<close>

theorem tie_order:
  "(meta_ordering t \<and> ConfidenceCalculator_find_similar_projects m t d k = Inr r \<longrightarrow>
      sorted_wrt (\<lambda>a b. similarity a = similarity b \<longrightarrow>
                    project_date (item b) \<le> project_date (item a)) r)
   \<and> prefix (filter (\<lambda>e. similarity e = s) (EmbeddingGenerator_find_similar_projects q ps k))
        (filter (\<lambda>e. similarity e = s) (collect_similar q ps))"
proof (intro conjI impI)
  assume a: "meta_ordering t \<and> ConfidenceCalculator_find_similar_projects m t d k = Inr r"
  then obtain e sims where s: "score_all e (queryset t) = Inr sims"
    and r: "r = py_prefix (sort_by_similarity sims) k"
    by (auto simp: ConfidenceCalculator_find_similar_projects_def split: sum.splits)
  have "meta_ordering (queryset t)" using a by (simp add: queryset_ordering)
  then have "sorted_wrt (\<lambda>a b. project_date (item b) \<le> project_date (item a)) sims"
    using s by (simp add: score_all_ordering)
  then show "sorted_wrt (\<lambda>a b. similarity a = similarity b \<longrightarrow>
                    project_date (item b) \<le> project_date (item a)) r"
    unfolding r by (intro sorted_wrt_py_prefix sort_by_similarity_ties)
next
  have "prefix (EmbeddingGenerator_find_similar_projects q ps k)
          (sort_by_similarity (collect_similar q ps))"
    by (simp add: EmbeddingGenerator_find_similar_projects_def prefix_py_prefix)
  then have "prefix (filter (\<lambda>e. similarity e = s) (EmbeddingGenerator_find_similar_projects q ps k))
     (filter (\<lambda>e. similarity e = s) (sort_by_similarity (collect_similar q ps)))"
    by (rule filter_mono_prefix)
  then show "prefix (filter (\<lambda>e. similarity e = s) (EmbeddingGenerator_find_similar_projects q ps k))
        (filter (\<lambda>e. similarity e = s) (collect_similar q ps))"
    by (simp add: sort_by_similarity_stable)
qed

theorem tie_order_witness:
  "meta_ordering [finalized_project ''new'' 20 [1, 0], finalized_project ''old'' 10 [1, 0]]
   \<and> ConfidenceCalculator_find_similar_projects (constant_model [1, 0])
        [finalized_project ''new'' 20 [1, 0], finalized_project ''old'' 10 [1, 0]] [97] 20
      = Inr [\<lparr>item = finalized_project ''new'' 20 [1, 0], similarity = 1\<rparr>,
             \<lparr>item = finalized_project ''old'' 10 [1, 0], similarity = 1\<rparr>]
   \<and> sorted_wrt (\<lambda>a b. similarity a = similarity b \<longrightarrow>
                    project_date (item b) \<le> project_date (item a))
        [\<lparr>item = finalized_project ''new'' 20 [1, 0], similarity = 1\<rparr>,
         \<lparr>item = finalized_project ''old'' 10 [1, 0], similarity = 1\<rparr>]"
proof -
  let ?t = "[finalized_project ''new'' 20 [1, 0], finalized_project ''old'' 10 [1, 0]]"
  let ?r = "[\<lparr>item = finalized_project ''new'' 20 [1, 0], similarity = 1\<rparr>,
             \<lparr>item = finalized_project ''old'' 10 [1, 0], similarity = 1\<rparr>]"
  have m: "meta_ordering ?t" by (simp add: meta_ordering_def finalized_project_def)
  have c: "ConfidenceCalculator_find_similar_projects (constant_model [1, 0]) ?t [97] 20 = Inr ?r"
    by (simp add: ConfidenceCalculator_find_similar_projects_def generate_embedding_constant
        queryset_def finalized_project_def calculate_similarity_axis sort_by_similarity_def
        py_prefix_def)
  show ?thesis
    using tie_order [where t = ?t and m = "constant_model [1, 0]" and d = "[97]" and k = 20
        and r = ?r] m c
    by simp
qed

text \<open>
  Given the older project first, \<open>EmbeddingGenerator.find_similar_projects\<close> returns the
  older project first.
\<close>

theorem tie_order_counterexample:
  "project_date (finalized_project ''old'' 10 [1, 0]) < project_date (finalized_project ''new'' 20 [1, 0])
   \<and> map (\<lambda>e. (summary_id (item e), similarity e))
       (EmbeddingGenerator_find_similar_projects [1, 0]
          [finalized_project ''old'' 10 [1, 0], finalized_project ''new'' 20 [1, 0]] 5)
     = [(''old'', 1), (''new'', 1)]"
  by (simp add: EmbeddingGenerator_find_similar_projects_def finalized_project_def
      calculate_similarity_axis sort_by_similarity_def py_prefix_def)

text \<open>
  Claim C3, as amended.  Whenever \<open>train\<close> is given fewer than 30 rows it raises the builtin
  \<open>ValueError\<close> with the message \<open>Mindestens 30 Projekte ben..tigt, nur n vorhanden.\<close>,
  before any feature is prepared or any model is fitted: no model is produced.
\<close>

theorem train_insufficient_data:
  "length projects_queryset < 30 \<Longrightarrow>
     train fit_and_evaluate now self projects_queryset test_size =
       Inl (ValueError (''Mindestens 30 Projekte ben'' @ [CHR 0xC3, CHR 0xB6] @ ''tigt, nur ''
                        @ str_nat (length projects_queryset) @ '' vorhanden.''))"
  by (simp add: train_def)

theorem train_insufficient_data_witness:
  "length (replicate 10 example_row) < 30
   \<and> train constant_fit 0 init_predictor (replicate 10 example_row) 0.2 =
       Inl (ValueError (''Mindestens 30 Projekte ben'' @ [CHR 0xC3, CHR 0xB6]
                        @ ''tigt, nur 10 vorhanden.''))"
  using train_insufficient_data [of "replicate 10 example_row" constant_fit 0 init_predictor "0.2"]
  by (simp add: str_nat_10)

text \<open>
  With 10 rows the class of the exception is \<open>ValueError\<close>, not \<open>InsufficientDataError\<close>;
  \<open>predict\<close> without a model raises the same class.
\<close>

theorem train_insufficient_data_counterexample:
  "map_sum error_class (\<lambda>_. ()) (train constant_fit 0 init_predictor (replicate 10 example_row) 0.2)
     = Inl ''ValueError''
   \<and> ''ValueError'' \<noteq> ''InsufficientDataError''
   \<and> map_sum error_class (\<lambda>_. ()) (predict 0 init_predictor (example_data ''Eiche''))
     = Inl ''ValueError''"
  by (simp add: train_def predict_def init_predictor_def)

text \<open>
  Claim C4, as amended.  With a model loaded and the three encoders fitted, \<open>predict\<close> on
  an input that has the five required keys raises \<open>ValueError\<close> (unseen labels) as soon as
  \<open>wood_type\<close>, \<open>project_type\<close> or \<open>region\<close> is not among the classes of its encoder;
  there is no fallback bucket.  When all three values are among the classes, each is
  encoded as its position and the regressor's first output is returned.
\<close>

theorem predict_unseen_category:
  assumes "xgb_model self = Some regressor"
    and "label_encoders self ''wood_type'' = Some wood_classes"
    and "label_encoders self ''project_type'' = Some type_classes"
    and "label_encoders self ''region'' = Some region_classes"
    and "pd_total_area_sqm d = Some area" and "pd_complexity d = Some c"
    and "pd_wood_type d = Some w" and "pd_project_type d = Some t" and "pd_region d = Some g"
  shows "(w \<notin> set wood_classes \<or> t \<notin> set type_classes \<or> g \<notin> set region_classes \<longrightarrow>
           predict now self d = Inl (ValueError ''y contains previously unseen labels''))
       \<and> (w \<in> set wood_classes \<and> t \<in> set type_classes \<and> g \<in> set region_classes \<longrightarrow>
           (\<exists>X. ff_total_area_sqm X = [area]
                \<and> ff_wood_type_encoded X = [index_of w wood_classes]
                \<and> ff_project_type_encoded X = [index_of t type_classes]
                \<and> ff_region_encoded X = [index_of g region_classes]
                \<and> predict now self d =
                    (case regressor X of
                       [] \<Rightarrow> Inl (IndexError ''index 0 is out of bounds'')
                     | predicted_price # _ \<Rightarrow> Inr predicted_price)))"
proof -
  let ?df = "dataframe_of_dict d"
  have cols: "categorical_column ?df ''wood_type'' = Some [w]"
    "categorical_column ?df ''project_type'' = Some [t]"
    "categorical_column ?df ''region'' = Some [g]"
    using assms by (simp_all add: dataframe_of_dict_def)
  have num: "col_total_area_sqm ?df = Some [area]" "col_complexity ?df = Some [c]"
    using assms by (simp_all add: dataframe_of_dict_def)
  note enc =
    encode_column_fitted [of "label_encoders self" "''wood_type''" wood_classes ?df w,
      OF assms(2) cols(1)]
    encode_column_fitted [of "label_encoders self" "''project_type''" type_classes ?df t,
      OF assms(3) cols(2)]
    encode_column_fitted [of "label_encoders self" "''region''" region_classes ?df g,
      OF assms(4) cols(3)]
  have unseen: "predict now self d = Inl (ValueError ''y contains previously unseen labels'')"
    if "w \<notin> set wood_classes \<or> t \<notin> set type_classes \<or> g \<notin> set region_classes"
    using that assms(1) num enc by (auto simp: predict_def prepare_features_def getitem_def)
  have seen: "\<exists>X. ff_total_area_sqm X = [area]
                \<and> ff_wood_type_encoded X = [index_of w wood_classes]
                \<and> ff_project_type_encoded X = [index_of t type_classes]
                \<and> ff_region_encoded X = [index_of g region_classes]
                \<and> predict now self d =
                    (case regressor X of
                       [] \<Rightarrow> Inl (IndexError ''index 0 is out of bounds'')
                     | predicted_price # _ \<Rightarrow> Inr predicted_price)"
    if "w \<in> set wood_classes \<and> t \<in> set type_classes \<and> g \<in> set region_classes"
  proof -
    have "\<exists>self' X. prepare_features now self ?df = Inr (self', X)
            \<and> ff_total_area_sqm X = [area]
            \<and> ff_wood_type_encoded X = [index_of w wood_classes]
            \<and> ff_project_type_encoded X = [index_of t type_classes]
            \<and> ff_region_encoded X = [index_of g region_classes]"
      using that num enc by (simp add: prepare_features_def getitem_def Let_def)
    then obtain self' X where pf: "prepare_features now self ?df = Inr (self', X)"
      and X: "ff_total_area_sqm X = [area]" "ff_wood_type_encoded X = [index_of w wood_classes]"
        "ff_project_type_encoded X = [index_of t type_classes]"
        "ff_region_encoded X = [index_of g region_classes]"
      by blast
    have "predict now self d =
            (case regressor X of
               [] \<Rightarrow> Inl (IndexError ''index 0 is out of bounds'')
             | predicted_price # _ \<Rightarrow> Inr predicted_price)"
      using assms(1) pf by (simp add: predict_def)
    with X show ?thesis by blast
  qed
  show ?thesis using unseen seen by blast
qed

text \<open>
  The wood type \<open>Buche\<close> was not seen when the encoder was fitted: \<open>predict\<close> raises.
\<close>

theorem predict_unseen_category_counterexample:
  "predict 0 trained_predictor (example_data ''Buche'')
     = Inl (ValueError ''y contains previously unseen labels'')
   \<and> ''Buche'' \<notin> set [''Eiche'', ''Kiefer'']"
  by (simp add: predict_trained_unseen)

theorem predict_unseen_category_witness:
  "predict 0 trained_predictor (example_data ''Buche'')
     = Inl (ValueError ''y contains previously unseen labels'')
   \<and> predict 0 trained_predictor (example_data ''Kiefer'') = Inr 2550"
proof -
  have a: "xgb_model trained_predictor = Some (\<lambda>X. map (\<lambda>a. 100 * a) (ff_total_area_sqm X))"
    "label_encoders trained_predictor ''wood_type'' = Some [''Eiche'', ''Kiefer'']"
    "label_encoders trained_predictor ''project_type'' = Some [''Treppenbau'']"
    "label_encoders trained_predictor ''region'' = Some [''NRW'']"
    by (simp_all add: trained_predictor_def)
  have b: "pd_total_area_sqm (example_data x) = Some 25.5" "pd_complexity (example_data x) = Some 3"
    "pd_wood_type (example_data x) = Some x" "pd_project_type (example_data x) = Some ''Treppenbau''"
    "pd_region (example_data x) = Some ''NRW''" for x
    by (simp_all add: example_data_def)
  show ?thesis
    using predict_unseen_category [OF a b, of "''Buche''" 0]
      predict_unseen_category [OF a b, of "''Kiefer''" 0]
    by auto
qed

text \<open>
  Claim C6.  With a model that encodes every text as the all-ones vector, the single
  form returns the zero vector for the empty text and for a text of three spaces, while
  the batch form hands both texts to the model and returns what the model gives.
\<close>

theorem batch_embedding_empty_text:
  "generate_embedding (constant_model (replicate 384 1)) [] = Inr (replicate 384 0)
   \<and> generate_embedding (constant_model (replicate 384 1)) [32, 32, 32] = Inr (replicate 384 0)
   \<and> generate_embeddings_batch (constant_model (replicate 384 1)) [[], [32, 32, 32]]
       = Inr [replicate 384 1, replicate 384 1]
   \<and> embed_text (constant_model (replicate 384 1)) [] = replicate 384 0
   \<and> embed_texts_batch (constant_model (replicate 384 1)) [[]] = [replicate 384 1]
   \<and> replicate 384 (1::real) \<noteq> replicate 384 0"
  by (simp add: generate_embedding_def generate_embeddings_batch_def embed_text_def
      embed_texts_batch_def constant_model_def py_strip_def py_isspace_def replicate_one_zero)

text \<open>
  Claim C9, as amended.  \<open>extract_features\<close> is a function of the attributes and of the
  clock reading.  The clock enters only through the age of \<open>project_date\<close> in whole days:
  two calls give the same features when the attributes have no \<open>project_date\<close>, when
  its value cannot be converted, or when both clock readings give the same age in days.
\<close>

theorem extract_features_clock:
  "(project_dict ''project_date'' = None \<longrightarrow>
      extract_features lib now1 project_dict = extract_features lib now2 project_dict)
   \<and> (\<forall>v. project_dict ''project_date'' = Some v \<and> to_datetime lib v = None \<longrightarrow>
      extract_features lib now1 project_dict = extract_features lib now2 project_dict)
   \<and> (\<forall>v date. project_dict ''project_date'' = Some v \<and> to_datetime lib v = Some date
        \<and> (now1 - date) div day_ns = (now2 - date) div day_ns \<longrightarrow>
      extract_features lib now1 project_dict = extract_features lib now2 project_dict)"
proof -
  have "temporal_features lib now1 project_dict = temporal_features lib now2 project_dict"
    if "project_dict ''project_date'' = None
        \<or> (\<exists>v. project_dict ''project_date'' = Some v \<and> to_datetime lib v = None)
        \<or> (\<exists>v date. project_dict ''project_date'' = Some v \<and> to_datetime lib v = Some date
              \<and> (now1 - date) div day_ns = (now2 - date) div day_ns)"
    using that by (auto simp: temporal_features_def Let_def)
  then have "extract_features lib now1 project_dict = extract_features lib now2 project_dict"
    if "project_dict ''project_date'' = None
        \<or> (\<exists>v. project_dict ''project_date'' = Some v \<and> to_datetime lib v = None)
        \<or> (\<exists>v date. project_dict ''project_date'' = Some v \<and> to_datetime lib v = Some date
              \<and> (now1 - date) div day_ns = (now2 - date) div day_ns)"
    unfolding extract_features_def using that by presburger
  then show ?thesis by blast
qed

theorem extract_features_clock_witness:
  "extract_features int_builtins 0 [''total_area_sqm'' \<mapsto> 25]
     = extract_features int_builtins (200 * day_ns) [''total_area_sqm'' \<mapsto> 25]
   \<and> extract_features int_builtins 0 [''project_date'' \<mapsto> 2 ^ 63]
     = extract_features int_builtins (200 * day_ns) [''project_date'' \<mapsto> 2 ^ 63]
   \<and> extract_features int_builtins (200 * day_ns + 5) [''project_date'' \<mapsto> 0]
     = extract_features int_builtins (200 * day_ns + 7) [''project_date'' \<mapsto> 0]"
proof -
  have d: "(200 * day_ns + 5 - 0) div day_ns = (200 * day_ns + 7 - 0) div day_ns"
    by (simp add: day_ns_def)
  show ?thesis
    using extract_features_clock [of "[''total_area_sqm'' \<mapsto> 25]" int_builtins 0 "200 * day_ns"]
      extract_features_clock [of "[''project_date'' \<mapsto> 2 ^ 63]" int_builtins 0 "200 * day_ns"]
      extract_features_clock [of "[''project_date'' \<mapsto> 0]" int_builtins "200 * day_ns + 5" "200 * day_ns + 7"]
      d
    by (simp add: int_builtins_def)
qed

text \<open>
  The same attributes at two clock readings 200 days apart give different features.
\<close>

theorem extract_features_clock_counterexample:
  "extract_features int_builtins 0 [''project_date'' \<mapsto> 0]
     \<noteq> extract_features int_builtins (200 * day_ns) [''project_date'' \<mapsto> 0]
   \<and> map_sum id feat_is_recent (extract_features int_builtins 0 [''project_date'' \<mapsto> 0]) = Inr 1
   \<and> map_sum id feat_is_recent
        (extract_features int_builtins (200 * day_ns) [''project_date'' \<mapsto> 0]) = Inr 0"
  by (simp add: extract_features_def temporal_features_def int_builtins_def day_ns_def)

end
